theory Spec2Isabelle
  imports Main
begin

section \<open>The Steam network backend: data model\<close>

text \<open>
  A shallow embedding of \<^verbatim>\<open>SteamNetworkBackend\<close> (\<^verbatim>\<open>backend_steam_network.py\<close>).
  Every coroutine of the class is a function from the state of the backend to a result
  and the state it leaves. A raised exception is the left summand of the result and keeps
  the writes made before it was raised. What the coroutine does to its collaborators
  (queues, caches, protocol session, host callbacks) is appended to a trace, in program
  order; what the collaborators answer is an argument of the function. The model follows
  one coroutine at a time: the writes of other tasks during a suspension are not part of
  the function's own effect.
\<close>

text \<open>
  The exceptions the code raises, catches or lets through. \<^verbatim>\<open>CancelledError\<close> is the only
  one of them that is not a subclass of \<^verbatim>\<open>Exception\<close>, so that \<^verbatim>\<open>except Exception\<close> does not
  catch it.
\<close>

datatype exn =
    AuthenticationRequired
  | UnknownBackendResponse
  | UnknownError string
  | BackendTimeout
  | ProfileIsNotPublic
  | ProfileDoesNotExist
  | NotPublicGameDetailsOrUserHasNoGames
  | ValueError
  | KeyError
  | IndexError
  | TypeError
  | AttributeError
  | CancelledError
  | OtherException string

definition is_Exception :: "exn \<Rightarrow> bool" where
  "is_Exception e = (e \<noteq> CancelledError)"

text \<open>
  Modelled from the spec: the members of \<^verbatim>\<open>UserActionRequired\<close> (declared in
  \<^verbatim>\<open>steam_network.websocket_client\<close>). The code names three of them; every other member is
  \<open>OtherActionRequired\<close>.
\<close>

datatype UserActionRequired =
    NoActionRequired
  | EmailTwoFactorInputRequired
  | PhoneTwoFactorInputRequired
  | OtherActionRequired nat

text \<open>
  Modelled from the spec: \<^verbatim>\<open>StartUri\<close>, \<^verbatim>\<open>EndUri\<close> and \<^verbatim>\<open>next_step_response\<close> (declared in
  \<^verbatim>\<open>steam_network.authentication\<close>): a next step is the pair of the form to show and the
  completion to expect.
\<close>

datatype StartUri =
    LOGIN
  | LOGIN_FAILED
  | TWO_FACTOR_MAIL
  | TWO_FACTOR_MAIL_FAILED
  | TWO_FACTOR_MOBILE
  | TWO_FACTOR_MOBILE_FAILED
  | PP_PROMPT__PROFILE_IS_NOT_PUBLIC
  | PP_PROMPT__NOT_PUBLIC_GAME_DETAILS_OR_USER_HAS_NO_GAMES
  | PP_PROMPT__UNKNOWN_ERROR

datatype EndUri =
    LOGIN_FINISHED
  | TWO_FACTOR_MAIL_FINISHED
  | TWO_FACTOR_MOBILE_FINISHED
  | PUBLIC_PROMPT_FINISHED

text \<open>What an authentication entry point returns to the host.\<close>

datatype auth_result =
    Authentication "int option" "string option"
  | NextStep StartUri EndUri

definition next_step_response :: "StartUri \<Rightarrow> EndUri \<Rightarrow> auth_result" where
  "next_step_response start finish = NextStep start finish"

text \<open>
  Modelled from the spec: the Identity Record (\<^verbatim>\<open>UserInfoCache\<close>, declared in
  \<^verbatim>\<open>steam_network.user_info_cache\<close>): account id, display name and username, each unset
  (\<^verbatim>\<open>None\<close>) until it is known. \<^verbatim>\<open>to_dict\<close> and \<^verbatim>\<open>from_dict\<close> carry the whole record.
\<close>

record user_info_cache =
  steam_id :: "int option"
  persona_name :: "string option"
  account_username :: "string option"

text \<open>A credential submission put on the outbound queue: the password, and the code if any.\<close>

datatype submission = Submission string "string option"

text \<open>
  What one bounded wait on the inbound queue finds: a message (a dictionary) that arrived
  in time, or the timeout.
\<close>

datatype arrival =
    Message "string \<rightharpoonup> UserActionRequired"
  | Elapsed

datatype task = SteamRunTask | UserInfoReadyTask

text \<open>
  Modelled from the spec: an entry of the catalog cache (\<^verbatim>\<open>GamesCache\<close>, declared in
  \<^verbatim>\<open>steam_network.games_cache\<close>) has an id and a title. The id is a string, as the keys of
  the other caches are, so that \<^verbatim>\<open>str(app.appid)\<close> is the id itself. The cache keeps the
  owned and the shared entries, the entries added since the last drain, and the gate that
  lets further additions in.
\<close>

record app =
  appid :: string
  title :: string

record games_cache =
  owned_apps :: "app list"
  shared_apps :: "app list"
  added_games :: "app list"
  add_game_lever :: bool

text \<open>
  The records handed to the host (\<^verbatim>\<open>galaxy.api.types\<close>). A \<open>Game\<close> is built with an empty
  list of DLCs and a single-purchase licence everywhere, so the model keeps id and title.
\<close>

datatype game = Game string string

datatype SubscriptionDiscovery = AUTOMATIC | USER_ENABLED

datatype subscription = Subscription string bool "int option" SubscriptionDiscovery

datatype game_time = GameTime string "int option" "int option"

datatype galaxy_user_info = UserInfo string string string string

record proto_user_info =
  name :: string
  avatar_hash_hex :: string

datatype cache = GamesCache | StatsCache | TimesCache

datatype request =
    RefreshGameStats "string list"
  | RefreshGameTimes
  | RetrieveCollections
  | GetFriends
  | GetFriendsInfo "string list"
  | GetFriendsNicknames

text \<open>What the backend does to the world outside it, in program order.\<close>

datatype event =
    QueuePut submission
  | QueueGet nat
  | StoreCredentials user_info_cache
  | ProfileCheck "int option"
  | CreateTask task
  | WaitTasks "task list" nat
  | CancelTask task
  | AwaitTask task
  | WaitReady cache nat
  | Request request
  | AddGame game
  | Sleep nat

text \<open>
  The fields of the backend the modelled methods read or write. \<open>auth_data\<close> is
  \<^verbatim>\<open>self._auth_data\<close>: \<^verbatim>\<open>None\<close>, or the list \<^verbatim>\<open>[username, password]\<close>. \<open>plugin_queue\<close> is what
  the successive waits on \<^verbatim>\<open>communication_queues["plugin"]\<close> will find; when it is exhausted
  nothing arrives any more. \<open>persistent_games\<close> is \<^verbatim>\<open>self._persistent_cache["games"]\<close>, the last
  dump of the catalog cache, and \<open>storage_modified\<close> the dirty flag of the persistent
  storage. The two import flags are \<^verbatim>\<open>import_in_progress\<close> of the statistics and of the
  playtime cache; \<open>times_cache\<close> maps a game id to the dictionary cached for it.
\<close>

record backend =
  user_info :: user_info_cache
  auth_data :: "(string \<times> string) option"
  plugin_queue :: "arrival list"
  owned_games_parsed :: bool
  games :: games_cache
  stats_import_in_progress :: bool
  times_import_in_progress :: bool
  times_cache :: "string \<rightharpoonup> (string \<rightharpoonup> int)"
  persistent_games :: "games_cache option"
  storage_modified :: bool
  trace :: "event list"

text \<open>
  The collaborators whose code is outside the class: the query parser of the standard
  library (\<^verbatim>\<open>parse_qs(urlsplit(uri).query)\<close>) and the profile checker, which returns
  normally (\<open>None\<close>) or raises.
\<close>

record collaborators =
  parse_qs :: "string \<Rightarrow> string \<rightharpoonup> string list"
  check_is_public_by_steam_id :: "int option \<Rightarrow> exn option"

definition emit :: "event \<Rightarrow> backend \<Rightarrow> backend" where
  "emit e s = s\<lparr>trace := trace s @ [e]\<rparr>"

definition store_credentials :: "backend \<Rightarrow> backend" where
  "store_credentials s = emit (StoreCredentials (user_info s)) s"

section \<open>Authentication\<close>

text \<open>
  \<^verbatim>\<open>_get_websocket_auth_step\<close>: one wait of 20 seconds on the inbound queue. A timeout is
  answered with \<open>NoActionRequired\<close>; a message without the key \<^verbatim>\<open>auth_result\<close> raises
  \<^verbatim>\<open>KeyError\<close>.
\<close>

definition get_websocket_auth_step :: "backend \<Rightarrow> (exn + UserActionRequired) \<times> backend" where
  "get_websocket_auth_step s =
     (let s1 = emit (QueueGet 20) s in
      case plugin_queue s1 of
        [] \<Rightarrow> (Inr NoActionRequired, s1)
      | Elapsed # q \<Rightarrow> (Inr NoActionRequired, s1\<lparr>plugin_queue := q\<rparr>)
      | Message m # q \<Rightarrow>
          (case m ''auth_result'' of
             None \<Rightarrow> (Inl KeyError, s1\<lparr>plugin_queue := q\<rparr>)
           | Some r \<Rightarrow> (Inr r, s1\<lparr>plugin_queue := q\<rparr>)))"

text \<open>\<^verbatim>\<open>_check_public_profile\<close>: the handlers in the order of the source.\<close>

definition check_public_profile :: "collaborators \<Rightarrow> backend \<Rightarrow> (exn + auth_result) \<times> backend" where
  "check_public_profile c s =
     (let s1 = emit (ProfileCheck (steam_id (user_info s))) s in
      case check_is_public_by_steam_id c (steam_id (user_info s)) of
        None \<Rightarrow>
          (Inr (Authentication (steam_id (user_info s1)) (persona_name (user_info s1))), s1)
      | Some e \<Rightarrow>
          if e = ProfileIsNotPublic then
            (Inr (next_step_response PP_PROMPT__PROFILE_IS_NOT_PUBLIC PUBLIC_PROMPT_FINISHED), s1)
          else if e = NotPublicGameDetailsOrUserHasNoGames then
            (Inr (next_step_response PP_PROMPT__NOT_PUBLIC_GAME_DETAILS_OR_USER_HAS_NO_GAMES
                    PUBLIC_PROMPT_FINISHED), s1)
          else if e = ProfileDoesNotExist then (Inl UnknownBackendResponse, s1)
          else if e = ValueError then (Inl UnknownBackendResponse, s1)
          else if is_Exception e then
            (Inr (next_step_response PP_PROMPT__UNKNOWN_ERROR PUBLIC_PROMPT_FINISHED), s1)
          else (Inl e, s1))"

text \<open>Python's \<^verbatim>\<open>sub in s\<close> on strings, and \<^verbatim>\<open>values[0]\<close> on a list.\<close>

primrec contains :: "string \<Rightarrow> string \<Rightarrow> bool" where
  "contains sub [] = (sub = [])"
| "contains sub (x # xs) = (take (length sub) (x # xs) = sub \<or> contains sub xs)"

definition first_value :: "string list \<Rightarrow> exn + string" where
  "first_value vs = (case vs of [] \<Rightarrow> Inl IndexError | v # _ \<Rightarrow> Inr v)"

text \<open>
  \<^verbatim>\<open>_handle_login_finished\<close>. Both parameters are read before anything is written; the
  username goes to the identity record and the pair to \<^verbatim>\<open>_auth_data\<close>; the password alone is
  submitted, and one handshake result decides.
\<close>

definition handle_login_finished ::
  "collaborators \<Rightarrow> backend \<Rightarrow> (string \<rightharpoonup> string) \<Rightarrow> (exn + auth_result) \<times> backend" where
  "handle_login_finished c s credentials =
     (case credentials ''end_uri'' of
        None \<Rightarrow> (Inl KeyError, s)
      | Some uri \<Rightarrow>
          (case (parse_qs c uri ''username'', parse_qs c uri ''password'') of
             (Some us, Some ps) \<Rightarrow>
               (case (first_value us, first_value ps) of
                  (Inr username, Inr password) \<Rightarrow>
                    (let s1 = s\<lparr>user_info := (user_info s)\<lparr>account_username := Some username\<rparr>,
                                 auth_data := Some (username, password)\<rparr>;
                         s2 = emit (QueuePut (Submission password None)) s1
                     in case get_websocket_auth_step s2 of
                          (Inl e, s3) \<Rightarrow> (Inl e, s3)
                        | (Inr result, s3) \<Rightarrow>
                            if result = NoActionRequired then
                              check_public_profile c (store_credentials (s3\<lparr>auth_data := None\<rparr>))
                            else if result = EmailTwoFactorInputRequired then
                              (Inr (next_step_response TWO_FACTOR_MAIL TWO_FACTOR_MAIL_FINISHED), s3)
                            else if result = PhoneTwoFactorInputRequired then
                              (Inr (next_step_response TWO_FACTOR_MOBILE TWO_FACTOR_MOBILE_FINISHED), s3)
                            else (Inr (next_step_response LOGIN_FAILED LOGIN_FINISHED), s3))
                | (Inl e, _) \<Rightarrow> (Inl e, s)
                | (_, Inl e) \<Rightarrow> (Inl e, s))
           | _ \<Rightarrow> (Inr (next_step_response LOGIN_FAILED LOGIN_FINISHED), s)))"

text \<open>
  \<^verbatim>\<open>_handle_two_step\<close>. \<^verbatim>\<open>self._auth_data[1]\<close> raises \<^verbatim>\<open>TypeError\<close> when no password is pending.
\<close>

definition handle_two_step ::
  "backend \<Rightarrow> (string \<rightharpoonup> string list) \<Rightarrow> StartUri \<Rightarrow> EndUri \<Rightarrow> (exn + auth_result) \<times> backend" where
  "handle_two_step s params fail finish =
     (case params ''code'' of
        None \<Rightarrow> (Inr (next_step_response fail finish), s)
      | Some codes \<Rightarrow>
          (case first_value codes of
             Inl e \<Rightarrow> (Inl e, s)
           | Inr two_factor \<Rightarrow>
               (case auth_data s of
                  None \<Rightarrow> (Inl TypeError, s)
                | Some (username, password) \<Rightarrow>
                    (case get_websocket_auth_step
                            (emit (QueuePut (Submission password (Some two_factor))) s) of
                       (Inl e, s2) \<Rightarrow> (Inl e, s2)
                     | (Inr result, s2) \<Rightarrow>
                         if result \<noteq> NoActionRequired then (Inr (next_step_response fail finish), s2)
                         else
                           (let s3 = store_credentials (s2\<lparr>auth_data := None\<rparr>)
                            in (Inr (Authentication (steam_id (user_info s3))
                                       (persona_name (user_info s3))), s3))))))"

definition handle_two_step_mobile_finished ::
  "collaborators \<Rightarrow> backend \<Rightarrow> (string \<rightharpoonup> string) \<Rightarrow> (exn + auth_result) \<times> backend" where
  "handle_two_step_mobile_finished c s credentials =
     (case credentials ''end_uri'' of
        None \<Rightarrow> (Inl KeyError, s)
      | Some uri \<Rightarrow>
          handle_two_step s (parse_qs c uri) TWO_FACTOR_MOBILE_FAILED TWO_FACTOR_MOBILE_FINISHED)"

definition handle_two_step_email_finished ::
  "collaborators \<Rightarrow> backend \<Rightarrow> (string \<rightharpoonup> string) \<Rightarrow> (exn + auth_result) \<times> backend" where
  "handle_two_step_email_finished c s credentials =
     (case credentials ''end_uri'' of
        None \<Rightarrow> (Inl KeyError, s)
      | Some uri \<Rightarrow>
          if parse_qs c uri ''resend'' \<noteq> None then
            (case auth_data s of
               None \<Rightarrow> (Inl TypeError, s)
             | Some (username, password) \<Rightarrow>
                 (case get_websocket_auth_step (emit (QueuePut (Submission password None)) s) of
                    (Inl e, s2) \<Rightarrow> (Inl e, s2)
                  | (Inr result, s2) \<Rightarrow>
                      (Inr (next_step_response TWO_FACTOR_MAIL TWO_FACTOR_MAIL_FINISHED), s2)))
          else handle_two_step s (parse_qs c uri) TWO_FACTOR_MAIL_FAILED TWO_FACTOR_MAIL_FINISHED)"

text \<open>
  \<^verbatim>\<open>strtobool\<close> of \<^verbatim>\<open>distutils.util\<close>: the value is lowered and looked up in the two lists;
  \<^verbatim>\<open>None\<close> has no \<^verbatim>\<open>lower\<close>.
\<close>

definition lower_char :: "char \<Rightarrow> char" where
  "lower_char ch =
     (let n = (of_char ch :: nat) in if 65 \<le> n \<and> n \<le> 90 then char_of (n + 32) else ch)"

definition strtobool :: "string option \<Rightarrow> exn + bool" where
  "strtobool val =
     (case val of
        None \<Rightarrow> Inl AttributeError
      | Some v \<Rightarrow>
          (let l = map lower_char v in
           if l \<in> set [''y'', ''yes'', ''t'', ''true'', ''on'', ''1''] then Inr True
           else if l \<in> set [''n'', ''no'', ''f'', ''false'', ''off'', ''0''] then Inr False
           else Inl ValueError))"

text \<open>
  \<^verbatim>\<open>_handle_public_prompt_finished\<close>. \<^verbatim>\<open>dict(parse_qsl(query))\<close> keeps the last value of each
  key, which is the last element of the list \<^verbatim>\<open>parse_qs\<close> gives for it.
\<close>

definition last_value :: "string list option \<Rightarrow> string option" where
  "last_value vs = (case vs of None \<Rightarrow> None | Some [] \<Rightarrow> None | Some (v # r) \<Rightarrow> Some (last (v # r)))"

definition handle_public_prompt_finished ::
  "collaborators \<Rightarrow> backend \<Rightarrow> (string \<rightharpoonup> string) \<Rightarrow> (exn + auth_result) \<times> backend" where
  "handle_public_prompt_finished c s credentials =
     (case credentials ''end_uri'' of
        None \<Rightarrow> (Inl KeyError, s)
      | Some uri \<Rightarrow>
          (case strtobool (last_value (parse_qs c uri ''public_profile_fallback'')) of
             Inl e \<Rightarrow> (Inl e, s)
           | Inr user_wants_pp_fallback \<Rightarrow>
               if user_wants_pp_fallback then check_public_profile c s
               else (Inr (Authentication (steam_id (user_info s)) (persona_name (user_info s))), s)))"

text \<open>
  \<^verbatim>\<open>pass_login_credentials\<close>: four tests on the end URI, in order, and no branch after
  them, so that the method then returns \<^verbatim>\<open>None\<close>: the result is optional.
\<close>

definition returning :: "(exn + 'a) \<times> backend \<Rightarrow> (exn + 'a option) \<times> backend" where
  "returning r = (case r of (Inl e, s) \<Rightarrow> (Inl e, s) | (Inr v, s) \<Rightarrow> (Inr (Some v), s))"

definition pass_login_credentials ::
  "collaborators \<Rightarrow> backend \<Rightarrow> (string \<rightharpoonup> string) \<Rightarrow> (exn + auth_result option) \<times> backend" where
  "pass_login_credentials c s credentials =
     (case credentials ''end_uri'' of
        None \<Rightarrow> (Inl KeyError, s)
      | Some uri \<Rightarrow>
          if contains ''login_finished'' uri then
            returning (handle_login_finished c s credentials)
          else if contains ''two_factor_mobile_finished'' uri then
            returning (handle_two_step_mobile_finished c s credentials)
          else if contains ''two_factor_mail_finished'' uri then
            returning (handle_two_step_email_finished c s credentials)
          else if contains ''public_prompt_finished'' uri then
            returning (handle_public_prompt_finished c s credentials)
          else (Inr None, s))"

text \<open>
  \<^verbatim>\<open>_cancel_task\<close>: the task is cancelled and awaited; \<open>awaited\<close> is what awaiting it raises, if
  anything, and only \<^verbatim>\<open>CancelledError\<close> is suppressed.
\<close>

definition cancel_task :: "backend \<Rightarrow> task \<Rightarrow> exn option \<Rightarrow> (exn + unit) \<times> backend" where
  "cancel_task s t awaited =
     (let s1 = emit (AwaitTask t) (emit (CancelTask t) s) in
      case awaited of
        None \<Rightarrow> (Inr (), s1)
      | Some e \<Rightarrow> if e = CancelledError then (Inr (), s1) else (Inl e, s1))"

definition USER_INFO_CACHE_INITIALIZED_TIMEOUT :: nat where
  "USER_INFO_CACHE_INITIALIZED_TIMEOUT = 30"

definition GAME_CACHE_IS_READY_TIMEOUT :: nat where
  "GAME_CACHE_IS_READY_TIMEOUT = 90"

text \<open>
  \<^verbatim>\<open>_authenticate_with_stored_credentials\<close>. \<open>done\<close> is the set \<^verbatim>\<open>asyncio.wait\<close> returns (empty
  when the timeout elapsed first) and \<open>awaited\<close> what awaiting the run task raises, if
  anything. An exception of the run task is raised again as it is, whether or not the
  handler catches it on the way.
\<close>

definition authenticate_with_stored_credentials ::
  "backend \<Rightarrow> user_info_cache \<Rightarrow> task set \<Rightarrow> exn option \<Rightarrow> (exn + auth_result) \<times> backend" where
  "authenticate_with_stored_credentials s stored_credentials done awaited =
     (let s1 = s\<lparr>user_info := stored_credentials\<rparr>;
          s2 = emit (CreateTask UserInfoReadyTask) (emit (CreateTask SteamRunTask) s1);
          s3 = emit (WaitTasks [SteamRunTask, UserInfoReadyTask]
                       USER_INFO_CACHE_INITIALIZED_TIMEOUT) s2
      in if UserInfoReadyTask \<in> done then
           (let s4 = store_credentials s3
            in (Inr (Authentication (steam_id (user_info s4)) (persona_name (user_info s4))), s4))
         else if SteamRunTask \<in> done then
           (case awaited of
              Some e \<Rightarrow> (Inl e, emit (AwaitTask SteamRunTask) s3)
            | None \<Rightarrow>
                (Inl (UnknownError ''Unexcpeted, silent websocket close.''),
                 emit (AwaitTask SteamRunTask) s3))
         else
           (case cancel_task s3 SteamRunTask awaited of
              (Inl e, s4) \<Rightarrow> (Inl e, s4)
            | (Inr _, s4) \<Rightarrow> (Inl BackendTimeout, s4)))"

definition authenticate ::
  "backend \<Rightarrow> user_info_cache option \<Rightarrow> task set \<Rightarrow> exn option \<Rightarrow> (exn + auth_result) \<times> backend" where
  "authenticate s stored_credentials done awaited =
     (case stored_credentials of
        None \<Rightarrow> (Inr (next_step_response LOGIN LOGIN_FINISHED), emit (CreateTask SteamRunTask) s)
      | Some stored \<Rightarrow> authenticate_with_stored_credentials s stored done awaited)"

section \<open>The periodic reconciliation\<close>

text \<open>
  \<^verbatim>\<open>_update_owned_games\<close>. Modelled from the spec: \<^verbatim>\<open>consume_added_games\<close> drains the queue of
  newly added entries, and \<^verbatim>\<open>dump\<close> is the snapshot of the cache. The loop counts from 0
  (\<^verbatim>\<open>enumerate\<close>) and sleeps 5 seconds after the entries whose index is 49 modulo 50.
\<close>

definition game_of :: "app \<Rightarrow> game" where
  "game_of a = Game (appid a) (title a)"

fun add_games_loop :: "nat \<Rightarrow> app list \<Rightarrow> backend \<Rightarrow> backend" where
  "add_games_loop i [] s = s"
| "add_games_loop i (g # gs) s =
     (let s1 = emit (AddGame (game_of g)) s;
          s2 = (if i mod 50 = 49 then emit (Sleep 5) s1 else s1)
      in add_games_loop (Suc i) gs s2)"

definition update_owned_games :: "backend \<Rightarrow> backend" where
  "update_owned_games s =
     (let new_games = added_games (games s);
          s1 = s\<lparr>games := (games s)\<lparr>added_games := []\<rparr>\<rparr>
      in if new_games = [] then s1
         else add_games_loop 0 new_games
                (s1\<lparr>persistent_games := Some (games s1), storage_modified := True\<rparr>))"

text \<open>
  The spec's words for the same forwarding: the entries one at a time, the \<open>k\<close>-th entry
  (counted from 1) followed by a pause exactly when \<open>k\<close> is a multiple of 50.
\<close>

definition forwarding_with_pauses :: "app list \<Rightarrow> event list" where
  "forwarding_with_pauses gs =
     concat (map (\<lambda>k. AddGame (game_of (gs ! (k - 1))) # (if k mod 50 = 0 then [Sleep 5] else []))
               [1 ..< Suc (length gs)])"

definition is_pause :: "event \<Rightarrow> bool" where
  "is_pause e = (case e of Sleep _ \<Rightarrow> True | _ \<Rightarrow> False)"

section \<open>Feature methods\<close>

text \<open>
  Modelled from the spec: \<^verbatim>\<open>wait_ready(timeout)\<close> of a cache suspends the caller until the
  cache is ready and raises when the timeout elapses first. \<open>waited\<close> is what the wait raises,
  if anything.
\<close>

definition wait_ready :: "cache \<Rightarrow> nat \<Rightarrow> exn option \<Rightarrow> backend \<Rightarrow> (exn + unit) \<times> backend" where
  "wait_ready c timeout waited s =
     (case waited of
        Some e \<Rightarrow> (Inl e, emit (WaitReady c timeout) s)
      | None \<Rightarrow> (Inr (), emit (WaitReady c timeout) s))"

text \<open>
  The names of \<^verbatim>\<open>steam_network.w3_hack\<close>, which is outside the class: the ids of the
  add-ons, the test on the set of owned add-ons, and the id and title of the edition they
  resolve to.
\<close>

record w3_hack =
  WITCHER_3_DLCS_APP_IDS :: "string set"
  does_witcher_3_dlcs_set_resolve_to_GOTY :: "string set \<Rightarrow> bool"
  WITCHER_3_GOTY_APP_ID :: string
  WITCHER_3_GOTY_TITLE :: string

text \<open>
  \<^verbatim>\<open>get_owned_games\<close>. \<open>waited\<close> is what \<^verbatim>\<open>wait_ready\<close> raises, if anything, and \<open>iterated\<close>
  what the iteration over the cache raises after its last entry, if anything. The
  \<^verbatim>\<open>finally\<close> clause sets \<^verbatim>\<open>_owned_games_parsed\<close> on every way out of the \<^verbatim>\<open>try\<close>.
\<close>

definition get_owned_games ::
  "w3_hack \<Rightarrow> backend \<Rightarrow> exn option \<Rightarrow> exn option \<Rightarrow> (exn + game list) \<times> backend" where
  "get_owned_games w s waited iterated =
     (if steam_id (user_info s) = None then (Inl AuthenticationRequired, s)
      else
        (case wait_ready GamesCache GAME_CACHE_IS_READY_TIMEOUT waited s of
           (Inl e, s1) \<Rightarrow> (Inl e, s1)
         | (Inr _, s1) \<Rightarrow>
             (let s2 = s1\<lparr>games := (games s1)\<lparr>add_game_lever := True\<rparr>\<rparr>;
                  owned_games = map game_of (owned_apps (games s2));
                  owned_witcher_3_dlcs =
                    {i \<in> set (map appid (owned_apps (games s2))). i \<in> WITCHER_3_DLCS_APP_IDS w};
                  s3 = s2\<lparr>owned_games_parsed := True\<rparr>
              in case iterated of
                   Some e \<Rightarrow>
                     if e = KeyError \<or> e = ValueError then (Inl UnknownBackendResponse, s3)
                     else (Inl e, s3)
                 | None \<Rightarrow>
                     (if does_witcher_3_dlcs_set_resolve_to_GOTY w owned_witcher_3_dlcs
                        then Inr (owned_games @ [Game (WITCHER_3_GOTY_APP_ID w) (WITCHER_3_GOTY_TITLE w)])
                        else Inr owned_games,
                      s3\<lparr>persistent_games := Some (games s3), storage_modified := True\<rparr>))))"

text \<open>\<^verbatim>\<open>get_subscriptions\<close>: no test of the identity; the cache is waited for and read.\<close>

definition get_subscriptions :: "backend \<Rightarrow> exn option \<Rightarrow> (exn + subscription list) \<times> backend" where
  "get_subscriptions s waited =
     (case (if \<not> owned_games_parsed s then wait_ready GamesCache 90 waited s else (Inr (), s)) of
        (Inl e, s1) \<Rightarrow> (Inl e, s1)
      | (Inr _, s1) \<Rightarrow>
          (let any_shared_game = (shared_apps (games s1) \<noteq> [])
           in (Inr [Subscription ''Steam Family Sharing'' any_shared_game None AUTOMATIC], s1)))"

text \<open>
  \<^verbatim>\<open>prepare_achievements_context\<close> and \<^verbatim>\<open>prepare_game_times_context\<close>: the refresh is requested
  unless an import is in progress, then the cache is waited for, 10 minutes at most.
  \<open>requested\<close> and \<open>waited\<close> are what the request and the wait raise, if anything.
\<close>

definition prepare_achievements_context ::
  "backend \<Rightarrow> string list \<Rightarrow> exn option \<Rightarrow> exn option \<Rightarrow> (exn + unit) \<times> backend" where
  "prepare_achievements_context s game_ids requested waited =
     (if steam_id (user_info s) = None then (Inl AuthenticationRequired, s)
      else if \<not> stats_import_in_progress s then
        (case requested of
           Some e \<Rightarrow> (Inl e, emit (Request (RefreshGameStats game_ids)) s)
         | None \<Rightarrow>
             wait_ready StatsCache (10 * 60) waited (emit (Request (RefreshGameStats game_ids)) s))
      else wait_ready StatsCache (10 * 60) waited s)"

definition prepare_game_times_context ::
  "backend \<Rightarrow> string list \<Rightarrow> exn option \<Rightarrow> exn option \<Rightarrow> (exn + unit) \<times> backend" where
  "prepare_game_times_context s game_ids requested waited =
     (if steam_id (user_info s) = None then (Inl AuthenticationRequired, s)
      else if \<not> times_import_in_progress s then
        (case requested of
           Some e \<Rightarrow> (Inl e, emit (Request RefreshGameTimes) s)
         | None \<Rightarrow> wait_ready TimesCache (10 * 60) waited (emit (Request RefreshGameTimes) s))
      else wait_ready TimesCache (10 * 60) waited s)"

text \<open>
  \<^verbatim>\<open>get_game_time\<close>: two lookups with defaults, so a game or a key that is not cached gives
  \<^verbatim>\<open>None\<close>; the sentinel 86400 stands for a game without a last-played time.
\<close>

definition GAME_DOES_NOT_SUPPORT_LAST_PLAYED_VALUE :: int where
  "GAME_DOES_NOT_SUPPORT_LAST_PLAYED_VALUE = 86400"

definition cached_time :: "backend \<Rightarrow> string \<Rightarrow> string \<Rightarrow> int option" where
  "cached_time s game_id key = (case times_cache s game_id of None \<Rightarrow> None | Some d \<Rightarrow> d key)"

definition get_game_time :: "backend \<Rightarrow> string \<Rightarrow> game_time" where
  "get_game_time s game_id =
     (let time_played = cached_time s game_id ''time_played'';
          last_played = cached_time s game_id ''last_played''
      in if last_played = Some GAME_DOES_NOT_SUPPORT_LAST_PLAYED_VALUE
         then GameTime game_id time_played None
         else GameTime game_id time_played last_played)"

text \<open>
  \<^verbatim>\<open>prepare_game_library_settings_context\<close>: \<open>retrieved\<close> is what \<^verbatim>\<open>retrieve_collections\<close>
  returns or raises.
\<close>

definition prepare_game_library_settings_context ::
  "backend \<Rightarrow> string list \<Rightarrow> exn + 'c \<Rightarrow> (exn + 'c) \<times> backend" where
  "prepare_game_library_settings_context s game_ids retrieved =
     (if steam_id (user_info s) = None then (Inl AuthenticationRequired, s)
      else (retrieved, emit (Request RetrieveCollections) s))"

text \<open>
  \<^verbatim>\<open>get_friends\<close>. The three answers of the protocol session are arguments: the ids, the
  records of the friends in the order of the dictionary, and the nicknames. The ids are
  strings, so \<^verbatim>\<open>str(friend_id)\<close> is the id itself, and the three requests are taken
  to return normally; the test of the identity comes before all of them.
\<close>

definition NO_AVATAR_SET :: string where
  "NO_AVATAR_SET = ''0000000000000000000000000000000000000000''"

definition DEFAULT_AVATAR_HASH :: string where
  "DEFAULT_AVATAR_HASH = ''fef49e7fa7e1997310d705b2a6158ff8dc1cdfeb''"

definition STEAMCOMMUNITY_PROFILE_BASE_URL :: string where
  "STEAMCOMMUNITY_PROFILE_BASE_URL = ''https://steamcommunity.com/profiles/''"

definition avatar_url_from_avatar_hash :: "string \<Rightarrow> string" where
  "avatar_url_from_avatar_hash a_hash =
     (let h = (if a_hash = NO_AVATAR_SET then DEFAULT_AVATAR_HASH else a_hash)
      in ''https://steamcdn-a.akamaihd.net/steamcommunity/public/images/avatars/''
           @ take 2 h @ ''/'' @ h @ ''_full.jpg'')"

definition galaxy_user_info_from_user_info :: "string \<Rightarrow> proto_user_info \<Rightarrow> galaxy_user_info" where
  "galaxy_user_info_from_user_info user_id info =
     UserInfo user_id (name info) (avatar_url_from_avatar_hash (avatar_hash_hex info))
       (STEAMCOMMUNITY_PROFILE_BASE_URL @ user_id)"

definition with_nickname :: "(string \<rightharpoonup> string) \<Rightarrow> string \<Rightarrow> galaxy_user_info \<Rightarrow> galaxy_user_info" where
  "with_nickname friends_nicknames friend_id friend =
     (case (friends_nicknames friend_id, friend) of
        (Some nick, UserInfo i n a p) \<Rightarrow> UserInfo i (n @ '' ('' @ nick @ '')'') a p
      | (None, _) \<Rightarrow> friend)"

definition get_friends ::
  "backend \<Rightarrow> string list \<Rightarrow> (string \<times> proto_user_info) list \<Rightarrow> (string \<rightharpoonup> string)
     \<Rightarrow> (exn + galaxy_user_info list) \<times> backend" where
  "get_friends s friends_ids friends_infos friends_nicknames =
     (if steam_id (user_info s) = None then (Inl AuthenticationRequired, s)
      else
        (Inr (map (\<lambda>(friend_id, info).
                     with_nickname friends_nicknames friend_id
                       (galaxy_user_info_from_user_info friend_id info)) friends_infos),
         emit (Request GetFriendsNicknames)
           (emit (Request (GetFriendsInfo friends_ids)) (emit (Request GetFriends) s))))"

section \<open>Concrete states and payloads\<close>

text \<open>
  The backend as \<^verbatim>\<open>__init__\<close> leaves it when nothing was persisted: empty caches, no pending
  password, no identity.
\<close>

definition new_backend :: backend where
  "new_backend =
     \<lparr>user_info = \<lparr>steam_id = None, persona_name = None, account_username = None\<rparr>,
      auth_data = None,
      plugin_queue = [],
      owned_games_parsed = False,
      games = \<lparr>owned_apps = [], shared_apps = [], added_games = [], add_game_lever = False\<rparr>,
      stats_import_in_progress = False,
      times_import_in_progress = False,
      times_cache = Map.empty,
      persistent_games = None,
      storage_modified = False,
      trace = []\<rparr>"

text \<open>
  An identity, a login form and its completion URI, and the states used to run the
  handlers: one whose next wait on the inbound queue times out, and one with a pending
  password whose next handshake result is a refusal.
\<close>

definition alice :: user_info_cache where
  "alice = \<lparr>steam_id = Some 76561198000000001, persona_name = Some ''Alice'',
            account_username = Some ''alice''\<rparr>"

definition login_uri :: string where
  "login_uri = ''https://example.invalid/login_finished?username=alice&password=secret''"

definition login_form :: collaborators where
  "login_form =
     \<lparr>parse_qs = (\<lambda>uri. if uri = login_uri
                          then [''username'' \<mapsto> [''alice''], ''password'' \<mapsto> [''secret'']]
                          else Map.empty),
      check_is_public_by_steam_id = (\<lambda>i. None)\<rparr>"

definition checker_raising :: "exn option \<Rightarrow> collaborators" where
  "checker_raising r = \<lparr>parse_qs = (\<lambda>uri. Map.empty), check_is_public_by_steam_id = (\<lambda>i. r)\<rparr>"

definition silent_backend :: backend where
  "silent_backend = new_backend\<lparr>user_info := alice\<lparr>account_username := None\<rparr>, plugin_queue := [Elapsed]\<rparr>"

definition pending_backend :: backend where
  "pending_backend =
     new_backend\<lparr>user_info := alice, auth_data := Some (''alice'', ''secret''),
                 plugin_queue := [Message [''auth_result'' \<mapsto> OtherActionRequired 0]]\<rparr>"

definition resend_mobile_uri :: string where
  "resend_mobile_uri = ''https://example.invalid/two_factor_mobile_finished?resend=true''"

definition resend_mail_uri :: string where
  "resend_mail_uri = ''https://example.invalid/two_factor_mail_finished?resend=true''"

definition resend_form :: collaborators where
  "resend_form =
     \<lparr>parse_qs = (\<lambda>uri. if uri = resend_mobile_uri \<or> uri = resend_mail_uri
                          then [''resend'' \<mapsto> [''true'']] else Map.empty),
      check_is_public_by_steam_id = (\<lambda>i. None)\<rparr>"

definition played_backend :: backend where
  "played_backend =
     new_backend\<lparr>times_cache :=
       [''10'' \<mapsto> [''time_played'' \<mapsto> 120, ''last_played'' \<mapsto> 86400],
        ''20'' \<mapsto> [''time_played'' \<mapsto> 45, ''last_played'' \<mapsto> 1600000000]]\<rparr>"

definition some_app :: app where
  "some_app = \<lparr>appid = ''292030'', title = ''The Witcher 3''\<rparr>"

definition some_w3_hack :: w3_hack where
  "some_w3_hack =
     \<lparr>WITCHER_3_DLCS_APP_IDS = {''355880'', ''378648''},
      does_witcher_3_dlcs_set_resolve_to_GOTY = (\<lambda>owned. owned = {''355880'', ''378648''}),
      WITCHER_3_GOTY_APP_ID = ''499450'',
      WITCHER_3_GOTY_TITLE = ''The Witcher 3: Wild Hunt - Game of the Year Edition''\<rparr>"

definition bulk_backend :: backend where
  "bulk_backend = new_backend\<lparr>games := (games new_backend)\<lparr>added_games := replicate 120 some_app\<rparr>\<rparr>"

section \<open>Properties\<close>

subsection \<open>The bounded wait on the inbound queue\<close>

lemma auth_step_result_cases:
  "fst (get_websocket_auth_step s) =
     (case plugin_queue s of
        [] \<Rightarrow> Inr NoActionRequired
      | Elapsed # q \<Rightarrow> Inr NoActionRequired
      | Message m # q \<Rightarrow> (case m ''auth_result'' of None \<Rightarrow> Inl KeyError | Some r \<Rightarrow> Inr r))"
  by (simp add: get_websocket_auth_step_def emit_def Let_def split: list.splits arrival.splits option.splits)

lemma auth_step_state:
  "snd (get_websocket_auth_step s) = s\<lparr>plugin_queue := tl (plugin_queue s), trace := trace s @ [QueueGet 20]\<rparr>"
  by (simp add: get_websocket_auth_step_def emit_def Let_def split: list.splits arrival.splits option.splits)

lemma auth_step_pair:
  "get_websocket_auth_step s =
     (fst (get_websocket_auth_step s),
      s\<lparr>plugin_queue := tl (plugin_queue s), trace := trace s @ [QueueGet 20]\<rparr>)"
  by (metis auth_step_state prod.collapse)

lemma auth_step_result_queue:
  "plugin_queue s' = plugin_queue s \<Longrightarrow>
     fst (get_websocket_auth_step s') = fst (get_websocket_auth_step s)"
  by (simp add: auth_step_result_cases)

lemma auth_step_frame:
  assumes "get_websocket_auth_step s = (r, s')"
  shows "s' = s\<lparr>plugin_queue := tl (plugin_queue s), trace := trace s @ [QueueGet 20]\<rparr>"
  using assms auth_step_pair [of s] by simp

text \<open>
  Claim C3. When the 20-second wait on the inbound handshake-result queue elapses (the
  queue holds nothing more, or the next thing the wait finds is the timeout), the step is
  \<open>NoActionRequired\<close>: a value, not an exception. The wait is recorded with its bound.
\<close>

theorem wait_timeout_is_no_action_required:
  assumes "plugin_queue s = [] \<or> hd (plugin_queue s) = Elapsed"
  shows "fst (get_websocket_auth_step s) = Inr NoActionRequired
       \<and> trace (snd (get_websocket_auth_step s)) = trace s @ [QueueGet 20]"
  using assms
  by (auto simp: auth_step_result_cases auth_step_state split: list.splits arrival.splits)

theorem wait_timeout_is_no_action_required_witness:
  "(plugin_queue silent_backend = [] \<or> hd (plugin_queue silent_backend) = Elapsed)
   \<and> fst (get_websocket_auth_step silent_backend) = Inr NoActionRequired
   \<and> trace (snd (get_websocket_auth_step silent_backend)) = [QueueGet 20]"
proof -
  have h: "plugin_queue silent_backend = [] \<or> hd (plugin_queue silent_backend) = Elapsed"
    by (simp add: silent_backend_def)
  show ?thesis
    using h wait_timeout_is_no_action_required [OF h]
    by (simp add: silent_backend_def new_backend_def)
qed

subsection \<open>The profile-visibility check\<close>

text \<open>
  Claim C4. The outcomes of \<^verbatim>\<open>_check_public_profile\<close>, by what the checker does: the two
  visibility failures give the public-profile prompt, each with its own start URI;
  a profile that does not exist and a malformed id raise \<^verbatim>\<open>UnknownBackendResponse\<close>; any
  other exception gives the prompt for an unknown error; a normal return gives the
  authentication with the account id and the display name.
\<close>

theorem check_public_profile_outcomes:
  "(check_is_public_by_steam_id c (steam_id (user_info s)) = Some ProfileIsNotPublic \<longrightarrow>
      fst (check_public_profile c s) = Inr (NextStep PP_PROMPT__PROFILE_IS_NOT_PUBLIC PUBLIC_PROMPT_FINISHED))
   \<and> (check_is_public_by_steam_id c (steam_id (user_info s)) = Some NotPublicGameDetailsOrUserHasNoGames \<longrightarrow>
      fst (check_public_profile c s) =
        Inr (NextStep PP_PROMPT__NOT_PUBLIC_GAME_DETAILS_OR_USER_HAS_NO_GAMES PUBLIC_PROMPT_FINISHED))
   \<and> NextStep PP_PROMPT__PROFILE_IS_NOT_PUBLIC PUBLIC_PROMPT_FINISHED
        \<noteq> NextStep PP_PROMPT__NOT_PUBLIC_GAME_DETAILS_OR_USER_HAS_NO_GAMES PUBLIC_PROMPT_FINISHED
   \<and> (check_is_public_by_steam_id c (steam_id (user_info s)) = Some ProfileDoesNotExist \<longrightarrow>
      fst (check_public_profile c s) = Inl UnknownBackendResponse)
   \<and> (check_is_public_by_steam_id c (steam_id (user_info s)) = Some ValueError \<longrightarrow>
      fst (check_public_profile c s) = Inl UnknownBackendResponse)
   \<and> (check_is_public_by_steam_id c (steam_id (user_info s)) = Some e
        \<and> e \<notin> {ProfileIsNotPublic, NotPublicGameDetailsOrUserHasNoGames, ProfileDoesNotExist, ValueError}
        \<and> is_Exception e \<longrightarrow>
      fst (check_public_profile c s) = Inr (NextStep PP_PROMPT__UNKNOWN_ERROR PUBLIC_PROMPT_FINISHED))
   \<and> (check_is_public_by_steam_id c (steam_id (user_info s)) = None \<longrightarrow>
      fst (check_public_profile c s) =
        Inr (Authentication (steam_id (user_info s)) (persona_name (user_info s))))"
  by (simp add: check_public_profile_def next_step_response_def emit_def Let_def)

theorem check_public_profile_outcomes_witness:
  "fst (check_public_profile (checker_raising (Some ProfileIsNotPublic)) new_backend)
     = Inr (NextStep PP_PROMPT__PROFILE_IS_NOT_PUBLIC PUBLIC_PROMPT_FINISHED)
   \<and> fst (check_public_profile (checker_raising (Some NotPublicGameDetailsOrUserHasNoGames)) new_backend)
     = Inr (NextStep PP_PROMPT__NOT_PUBLIC_GAME_DETAILS_OR_USER_HAS_NO_GAMES PUBLIC_PROMPT_FINISHED)
   \<and> fst (check_public_profile (checker_raising (Some ProfileDoesNotExist)) new_backend)
     = Inl UnknownBackendResponse
   \<and> fst (check_public_profile (checker_raising (Some ValueError)) new_backend)
     = Inl UnknownBackendResponse
   \<and> is_Exception (OtherException ''connection reset'')
   \<and> fst (check_public_profile (checker_raising (Some (OtherException ''connection reset''))) new_backend)
     = Inr (NextStep PP_PROMPT__UNKNOWN_ERROR PUBLIC_PROMPT_FINISHED)
   \<and> fst (check_public_profile (checker_raising None) new_backend) = Inr (Authentication None None)"
  using check_public_profile_outcomes [of "checker_raising (Some ProfileIsNotPublic)" new_backend]
        check_public_profile_outcomes [of "checker_raising (Some NotPublicGameDetailsOrUserHasNoGames)" new_backend]
        check_public_profile_outcomes [of "checker_raising (Some ProfileDoesNotExist)" new_backend]
        check_public_profile_outcomes [of "checker_raising (Some ValueError)" new_backend]
        check_public_profile_outcomes [of "checker_raising (Some (OtherException ''connection reset''))" new_backend "OtherException ''connection reset''"]
        check_public_profile_outcomes [of "checker_raising None" new_backend]
  by (simp add: checker_raising_def new_backend_def is_Exception_def)

subsection \<open>Login with username and password\<close>



subsection \<open>The pending password\<close>

text \<open>
  Claim C6, as it fails: a two-factor code that is refused ends the step with the
  failure descriptor while the pending password is still held.
\<close>

theorem two_factor_failure_keeps_pending_password:
  "handle_two_step pending_backend [''code'' \<mapsto> [''12345'']] TWO_FACTOR_MAIL_FAILED TWO_FACTOR_MAIL_FINISHED
     = (Inr (NextStep TWO_FACTOR_MAIL_FAILED TWO_FACTOR_MAIL_FINISHED),
        pending_backend\<lparr>plugin_queue := [],
          trace := [QueuePut (Submission ''secret'' (Some ''12345'')), QueueGet 20]\<rparr>)
   \<and> auth_data (snd (handle_two_step pending_backend [''code'' \<mapsto> [''12345'']]
                        TWO_FACTOR_MAIL_FAILED TWO_FACTOR_MAIL_FINISHED)) = Some (''alice'', ''secret'')"
  by (simp add: handle_two_step_def first_value_def pending_backend_def new_backend_def
        get_websocket_auth_step_def emit_def next_step_response_def Let_def)

lemma handle_two_step_auth_data:
  "handle_two_step s params fail finish = (r, s') \<Longrightarrow>
     (case r of Inr (Authentication a n) \<Rightarrow> auth_data s' = None
              | Inr (NextStep st en) \<Rightarrow> auth_data s' = auth_data s
              | Inl e \<Rightarrow> True)"
  unfolding handle_two_step_def
  by (auto simp: store_credentials_def emit_def next_step_response_def Let_def
           dest!: auth_step_frame
           split: option.splits sum.splits if_splits prod.splits auth_result.splits)

lemma handle_login_finished_auth_data:
  "handle_login_finished c s credentials = (Inr (Authentication a n), s') \<Longrightarrow> auth_data s' = None"
  unfolding handle_login_finished_def check_public_profile_def
  by (auto simp: store_credentials_def emit_def next_step_response_def Let_def
           dest!: auth_step_frame
           split: option.splits sum.splits if_splits prod.splits auth_result.splits)

text \<open>
  Claim C6, amended. On the two paths that end in an authentication (the first
  submission, or the two-factor submission, answered by \<open>NoActionRequired\<close>) the pending
  password is unset in the state the result is returned with. A two-factor step that
  returns a next step leaves the pending password as it was, so that the next code can be
  submitted with it.
\<close>

theorem pending_password_cleared_on_success:
  "(handle_login_finished c s credentials = (Inr (Authentication a n), s') \<longrightarrow> auth_data s' = None)
   \<and> (handle_two_step s params fail finish = (Inr (Authentication a n), s') \<longrightarrow> auth_data s' = None)
   \<and> (handle_two_step s params fail finish = (Inr (NextStep st en), s') \<longrightarrow> auth_data s' = auth_data s)"
  using handle_login_finished_auth_data [of c s credentials a n s']
        handle_two_step_auth_data [of s params fail finish "Inr (Authentication a n)" s']
        handle_two_step_auth_data [of s params fail finish "Inr (NextStep st en)" s']
  by auto

theorem pending_password_cleared_on_success_witness:
  "auth_data (snd (handle_login_finished login_form silent_backend [''end_uri'' \<mapsto> login_uri])) = None
   \<and> auth_data (snd (handle_two_step (pending_backend\<lparr>plugin_queue := [Elapsed]\<rparr>)
                        [''code'' \<mapsto> [''12345'']] TWO_FACTOR_MAIL_FAILED TWO_FACTOR_MAIL_FINISHED)) = None
   \<and> auth_data (snd (handle_two_step pending_backend
                        [''code'' \<mapsto> [''12345'']] TWO_FACTOR_MAIL_FAILED TWO_FACTOR_MAIL_FINISHED))
       = auth_data pending_backend"
proof -
  have l: "handle_login_finished login_form silent_backend [''end_uri'' \<mapsto> login_uri]
      = (Inr (Authentication (Some 76561198000000001) (Some ''Alice'')),
         snd (handle_login_finished login_form silent_backend [''end_uri'' \<mapsto> login_uri]))"
    by (simp add: handle_login_finished_def login_form_def first_value_def silent_backend_def
          new_backend_def alice_def get_websocket_auth_step_def emit_def store_credentials_def
          check_public_profile_def Let_def)
  have s: "handle_two_step (pending_backend\<lparr>plugin_queue := [Elapsed]\<rparr>)
             [''code'' \<mapsto> [''12345'']] TWO_FACTOR_MAIL_FAILED TWO_FACTOR_MAIL_FINISHED
      = (Inr (Authentication (Some 76561198000000001) (Some ''Alice'')),
         snd (handle_two_step (pending_backend\<lparr>plugin_queue := [Elapsed]\<rparr>)
                [''code'' \<mapsto> [''12345'']] TWO_FACTOR_MAIL_FAILED TWO_FACTOR_MAIL_FINISHED))"
    by (simp add: handle_two_step_def first_value_def pending_backend_def
          new_backend_def alice_def get_websocket_auth_step_def emit_def store_credentials_def Let_def)
  have f: "handle_two_step pending_backend
             [''code'' \<mapsto> [''12345'']] TWO_FACTOR_MAIL_FAILED TWO_FACTOR_MAIL_FINISHED
      = (Inr (NextStep TWO_FACTOR_MAIL_FAILED TWO_FACTOR_MAIL_FINISHED),
         snd (handle_two_step pending_backend
                [''code'' \<mapsto> [''12345'']] TWO_FACTOR_MAIL_FAILED TWO_FACTOR_MAIL_FINISHED))"
    by (simp add: handle_two_step_def first_value_def pending_backend_def next_step_response_def
          new_backend_def alice_def get_websocket_auth_step_def emit_def store_credentials_def Let_def)
  show ?thesis
    using pending_password_cleared_on_success [THEN conjunct1, rule_format, OF l]
          pending_password_cleared_on_success [THEN conjunct2, THEN conjunct1, rule_format, OF s]
          pending_password_cleared_on_success [THEN conjunct2, THEN conjunct2, rule_format, OF f]
    by simp
qed

subsection \<open>Resending the two-factor code\<close>

text \<open>
  Claim C7, as it fails: on the mobile channel a completion that asks for a resend has no
  branch of its own. It carries no code, so nothing is put on the outbound queue and the
  descriptor returned is the failure form of the channel.
\<close>

theorem mobile_resend_submits_nothing:
  "handle_two_step_mobile_finished resend_form pending_backend [''end_uri'' \<mapsto> resend_mobile_uri]
     = (Inr (NextStep TWO_FACTOR_MOBILE_FAILED TWO_FACTOR_MOBILE_FINISHED), pending_backend)
   \<and> fst (handle_two_step_mobile_finished resend_form pending_backend [''end_uri'' \<mapsto> resend_mobile_uri])
       \<noteq> Inr (NextStep TWO_FACTOR_MOBILE TWO_FACTOR_MOBILE_FINISHED)
   \<and> trace (snd (handle_two_step_mobile_finished resend_form pending_backend
                    [''end_uri'' \<mapsto> resend_mobile_uri])) = []"
  by (simp add: handle_two_step_mobile_finished_def handle_two_step_def resend_form_def
        next_step_response_def pending_backend_def new_backend_def)

text \<open>
  Claim C7, amended to the e-mail channel. A completion that asks for a resend, with a
  password pending and a handshake event that carries a result \<open>r\<close> (or the timeout),
  puts the password alone on the outbound queue, consumes the event whatever \<open>r\<close> is,
  returns the descriptor of the e-mail code form, and leaves the pending password and the
  identity record as they were.
\<close>

theorem email_resend_keeps_state:
  assumes "credentials ''end_uri'' = Some uri"
    and "parse_qs c uri ''resend'' = Some v"
    and "auth_data s = Some (username, password)"
    and "fst (get_websocket_auth_step s) = Inr r"
  shows "\<exists>s'. handle_two_step_email_finished c s credentials
              = (Inr (NextStep TWO_FACTOR_MAIL TWO_FACTOR_MAIL_FINISHED), s')
          \<and> trace s' = trace s @ [QueuePut (Submission password None), QueueGet 20]
          \<and> plugin_queue s' = tl (plugin_queue s)
          \<and> auth_data s' = auth_data s
          \<and> user_info s' = user_info s"
proof -
  define s1 where "s1 = emit (QueuePut (Submission password None)) s"
  define s2 where "s2 = s1\<lparr>plugin_queue := tl (plugin_queue s1), trace := trace s1 @ [QueueGet 20]\<rparr>"
  have q: "plugin_queue s1 = plugin_queue s"
    by (simp add: s1_def emit_def)
  have "fst (get_websocket_auth_step s1) = Inr r"
    using assms(4) auth_step_result_queue [OF q] by simp
  then have step: "get_websocket_auth_step s1 = (Inr r, s2)"
    using auth_step_pair [of s1] by (simp add: s2_def)
  have "handle_two_step_email_finished c s credentials
          = (Inr (NextStep TWO_FACTOR_MAIL TWO_FACTOR_MAIL_FINISHED), s2)"
    using assms(1-3) step
    by (simp add: handle_two_step_email_finished_def next_step_response_def s1_def [symmetric])
  moreover have "trace s2 = trace s @ [QueuePut (Submission password None), QueueGet 20]"
    by (simp add: s2_def s1_def emit_def)
  moreover have "plugin_queue s2 = tl (plugin_queue s)"
    by (simp add: s2_def s1_def emit_def)
  moreover have "auth_data s2 = auth_data s" and "user_info s2 = user_info s"
    by (simp_all add: s2_def s1_def emit_def)
  ultimately show ?thesis
    by blast
qed

theorem email_resend_keeps_state_witness:
  "\<exists>s'. handle_two_step_email_finished resend_form pending_backend [''end_uri'' \<mapsto> resend_mail_uri]
              = (Inr (NextStep TWO_FACTOR_MAIL TWO_FACTOR_MAIL_FINISHED), s')
          \<and> trace s' = trace pending_backend @ [QueuePut (Submission ''secret'' None), QueueGet 20]
          \<and> plugin_queue s' = tl (plugin_queue pending_backend)
          \<and> auth_data s' = auth_data pending_backend
          \<and> user_info s' = user_info pending_backend"
  by (rule email_resend_keeps_state [where uri = resend_mail_uri and v = "[''true'']"
         and username = "''alice''" and r = "OtherActionRequired 0"])
     (simp_all add: resend_form_def pending_backend_def new_backend_def auth_step_result_cases)

subsection \<open>The value returned by the entry point\<close>

text \<open>
  Claim C9, at the input where the code departs from it: an end URI that holds none of
  the four markers falls through the four tests, and the method returns \<^verbatim>\<open>None\<close>.
\<close>

theorem unrecognised_end_uri_returns_none:
  "pass_login_credentials login_form new_backend [''end_uri'' \<mapsto> ''https://example.invalid/start'']
     = (Inr None, new_backend)"
  by (simp add: pass_login_credentials_def)

subsection \<open>Resuming from stored credentials\<close>

text \<open>
  Claim C2, as it fails: when neither task completes within the timeout and the cancelled
  run task, once awaited, raises an error other than the cancellation, that error is not
  suppressed. It escapes \<^verbatim>\<open>_cancel_task\<close>, and \<^verbatim>\<open>BackendTimeout\<close> is never raised.
\<close>

theorem resume_timeout_other_error_escapes:
  "authenticate_with_stored_credentials new_backend alice {}
       (Some (OtherException ''ConnectionResetError''))
     = (Inl (OtherException ''ConnectionResetError''),
        new_backend\<lparr>user_info := alice,
          trace := [CreateTask SteamRunTask, CreateTask UserInfoReadyTask,
                    WaitTasks [SteamRunTask, UserInfoReadyTask] 30,
                    CancelTask SteamRunTask, AwaitTask SteamRunTask]\<rparr>)
   \<and> fst (authenticate_with_stored_credentials new_backend alice {}
            (Some (OtherException ''ConnectionResetError''))) \<noteq> Inl BackendTimeout"
  by (simp add: authenticate_with_stored_credentials_def cancel_task_def emit_def Let_def
        USER_INFO_CACHE_INITIALIZED_TIMEOUT_def new_backend_def)

text \<open>
  Claim C2, amended. \<^verbatim>\<open>authenticate\<close> with stored credentials is
  \<^verbatim>\<open>_authenticate_with_stored_credentials\<close>, whose outcomes go by the set \<open>done\<close> that the
  wait of 30 seconds returns. With the identity task in it, the credentials are stored
  and the authentication carries account id and display name. With the run task alone in
  it, the exception of the run task is raised as it is, and a run task that returned
  raises \<^verbatim>\<open>UnknownError\<close>. With neither, the run task is cancelled and awaited: when that
  await returns or raises the cancellation, which is suppressed, \<^verbatim>\<open>BackendTimeout\<close> is
  raised; when it raises any other error, that error propagates as it is.
\<close>

theorem resume_outcomes:
  "authenticate s (Some stored) done awaited
     = authenticate_with_stored_credentials s stored done awaited
   \<and> (UserInfoReadyTask \<in> done \<longrightarrow>
      authenticate_with_stored_credentials s stored done awaited =
        (Inr (Authentication (steam_id stored) (persona_name stored)),
         s\<lparr>user_info := stored,
           trace := trace s @ [CreateTask SteamRunTask, CreateTask UserInfoReadyTask,
                               WaitTasks [SteamRunTask, UserInfoReadyTask] 30,
                               StoreCredentials stored]\<rparr>))
   \<and> (UserInfoReadyTask \<notin> done \<and> SteamRunTask \<in> done \<and> awaited = Some e \<longrightarrow>
        fst (authenticate_with_stored_credentials s stored done awaited) = Inl e)
   \<and> (UserInfoReadyTask \<notin> done \<and> SteamRunTask \<in> done \<and> awaited = None \<longrightarrow>
        fst (authenticate_with_stored_credentials s stored done awaited)
          = Inl (UnknownError ''Unexcpeted, silent websocket close.''))
   \<and> (UserInfoReadyTask \<notin> done \<and> SteamRunTask \<notin> done
        \<and> (awaited = None \<or> awaited = Some CancelledError) \<longrightarrow>
        authenticate_with_stored_credentials s stored done awaited =
          (Inl BackendTimeout,
           s\<lparr>user_info := stored,
             trace := trace s @ [CreateTask SteamRunTask, CreateTask UserInfoReadyTask,
                                 WaitTasks [SteamRunTask, UserInfoReadyTask] 30,
                                 CancelTask SteamRunTask, AwaitTask SteamRunTask]\<rparr>))
   \<and> (UserInfoReadyTask \<notin> done \<and> SteamRunTask \<notin> done
        \<and> awaited = Some e \<and> e \<noteq> CancelledError \<longrightarrow>
        authenticate_with_stored_credentials s stored done awaited =
          (Inl e,
           s\<lparr>user_info := stored,
             trace := trace s @ [CreateTask SteamRunTask, CreateTask UserInfoReadyTask,
                                 WaitTasks [SteamRunTask, UserInfoReadyTask] 30,
                                 CancelTask SteamRunTask, AwaitTask SteamRunTask]\<rparr>))"
  by (auto simp: authenticate_def authenticate_with_stored_credentials_def cancel_task_def
        store_credentials_def emit_def Let_def USER_INFO_CACHE_INITIALIZED_TIMEOUT_def)

theorem resume_outcomes_witness:
  "fst (authenticate_with_stored_credentials new_backend alice {UserInfoReadyTask} None)
     = Inr (Authentication (Some 76561198000000001) (Some ''Alice''))
   \<and> StoreCredentials alice
        \<in> set (trace (snd (authenticate_with_stored_credentials new_backend alice {UserInfoReadyTask} None)))
   \<and> fst (authenticate_with_stored_credentials new_backend alice {SteamRunTask}
            (Some (OtherException ''ConnectionResetError'')))
     = Inl (OtherException ''ConnectionResetError'')
   \<and> fst (authenticate_with_stored_credentials new_backend alice {SteamRunTask} None)
     = Inl (UnknownError ''Unexcpeted, silent websocket close.'')
   \<and> fst (authenticate_with_stored_credentials new_backend alice {} (Some CancelledError))
     = Inl BackendTimeout
   \<and> CancelTask SteamRunTask
        \<in> set (trace (snd (authenticate_with_stored_credentials new_backend alice {} (Some CancelledError))))
   \<and> fst (authenticate_with_stored_credentials new_backend alice {} None) = Inl BackendTimeout
   \<and> fst (authenticate_with_stored_credentials new_backend alice {} (Some (OtherException ''OSError'')))
     = Inl (OtherException ''OSError'')
   \<and> CancelTask SteamRunTask
        \<in> set (trace (snd (authenticate_with_stored_credentials new_backend alice {}
                              (Some (OtherException ''OSError'')))))"
  using resume_outcomes [of new_backend alice "{UserInfoReadyTask}" None]
        resume_outcomes [of new_backend alice "{SteamRunTask}"
          "Some (OtherException ''ConnectionResetError'')" "OtherException ''ConnectionResetError''"]
        resume_outcomes [of new_backend alice "{SteamRunTask}" None]
        resume_outcomes [of new_backend alice "{}" "Some CancelledError"]
        resume_outcomes [of new_backend alice "{}" None]
        resume_outcomes [of new_backend alice "{}" "Some (OtherException ''OSError'')"
          "OtherException ''OSError''"]
  by (simp add: alice_def)

subsection \<open>Forwarding newly added entries\<close>

lemma emit_trace: "emit e s = s\<lparr>trace := trace s @ [e]\<rparr>"
  by (simp add: emit_def)

lemma add_games_loop_trace:
  "add_games_loop i gs s =
     s\<lparr>trace := trace s @
        concat (map (\<lambda>j. AddGame (game_of (gs ! j)) # (if (i + j) mod 50 = 49 then [Sleep 5] else []))
                  [0 ..< length gs])\<rparr>"
proof (induction gs arbitrary: i s)
  case Nil
  show ?case by simp
next
  case (Cons g gs)
  have upt: "[0 ..< length (g # gs)] = 0 # map Suc [0 ..< length gs]"
    by (simp add: upt_conv_Cons map_Suc_upt del: upt_Suc)
  show ?case
    unfolding upt
    by (simp add: Cons.IH Let_def emit_def comp_def)
qed

lemma forwarding_shift:
  "forwarding_with_pauses gs =
     concat (map (\<lambda>j. AddGame (game_of (gs ! j)) # (if j mod 50 = 49 then [Sleep 5] else []))
               [0 ..< length gs])"
proof -
  have "[1 ..< Suc (length gs)] = map Suc [0 ..< length gs]"
    by (simp add: map_Suc_upt del: upt_Suc)
  moreover have "Suc j mod 50 = 0 \<longleftrightarrow> j mod 50 = 49" for j :: nat
    by presburger
  ultimately show ?thesis
    by (simp add: forwarding_with_pauses_def comp_def del: upt_Suc)
qed

lemma pause_count:
  "length (filter is_pause
      (concat (map (\<lambda>k. AddGame (f k) # (if k mod 50 = 0 then [Sleep 5] else [])) [1 ..< Suc n])))
     = n div 50"
proof (induction n)
  case 0
  show ?case by simp
next
  case (Suc n)
  have split: "[1 ..< Suc (Suc n)] = [1 ..< Suc n] @ [Suc n]"
    by simp
  show ?case
    unfolding split
    using Suc.IH by (simp add: is_pause_def div_Suc del: upt_Suc)
qed

lemma add_games_loop_append:
  "add_games_loop i (xs @ ys) s = add_games_loop (i + length xs) ys (add_games_loop i xs s)"
  by (induction xs arbitrary: i s) (simp_all add: Let_def)

lemma add_games_loop_short:
  "i mod 50 + length gs \<le> 49 \<Longrightarrow>
     add_games_loop i gs s = s\<lparr>trace := trace s @ map (\<lambda>g. AddGame (game_of g)) gs\<rparr>"
proof (induction gs arbitrary: i s)
  case Nil
  show ?case by simp
next
  case (Cons g gs)
  from Cons.prems have "i mod 50 \<noteq> 49" and "Suc i mod 50 + length gs \<le> 49"
    by (simp_all add: mod_Suc)
  then show ?case
    by (simp add: Cons.IH emit_def)
qed

lemma add_games_loop_fifty:
  assumes "i mod 50 = 0" and "length gs = 50"
  shows "add_games_loop i gs s =
           s\<lparr>trace := trace s @ map (\<lambda>g. AddGame (game_of g)) gs @ [Sleep 5]\<rparr>"
proof -
  obtain xs x where gs: "gs = xs @ [x]" and len: "length xs = 49"
    using assms(2) by (cases gs rule: rev_cases) auto
  have "(i + 49) mod 50 = 49"
    using assms(1) by presburger
  then show ?thesis
    using assms(1) len
    by (simp add: gs add_games_loop_append add_games_loop_short emit_def)
qed

lemma update_owned_games_trace:
  assumes "added_games (games s) \<noteq> []"
  shows "trace (update_owned_games s) = trace s @ forwarding_with_pauses (added_games (games s))"
  using assms
  by (simp add: update_owned_games_def Let_def add_games_loop_trace forwarding_shift)

lemma forwarding_120:
  assumes "length gs = 120"
  shows "forwarding_with_pauses gs =
           map (\<lambda>g. AddGame (game_of g)) (take 50 gs) @ [Sleep 5]
           @ map (\<lambda>g. AddGame (game_of g)) (take 50 (drop 50 gs)) @ [Sleep 5]
           @ map (\<lambda>g. AddGame (game_of g)) (drop 100 gs)"
proof -
  define a where "a = take 50 gs"
  define b where "b = take 50 (drop 50 gs)"
  define c where "c = drop 100 gs"
  have gs: "gs = a @ b @ c"
    unfolding a_def b_def c_def
    by (metis append_take_drop_id drop_drop numeral_Bit0 add.commute
          append_take_drop_id [of 50 "drop 50 gs"] eval_nat_numeral(1))
  have la: "length a = 50" and lb: "length b = 50" and lc: "length c = 20"
    using assms by (simp_all add: a_def b_def c_def)
  define s0 where "s0 = new_backend"
  have "add_games_loop 0 gs s0 =
          s0\<lparr>trace := trace s0 @ map (\<lambda>g. AddGame (game_of g)) a @ [Sleep 5]
                 @ map (\<lambda>g. AddGame (game_of g)) b @ [Sleep 5]
                 @ map (\<lambda>g. AddGame (game_of g)) c\<rparr>"
    by (simp add: gs add_games_loop_append la lb lc add_games_loop_fifty add_games_loop_short)
  moreover have "add_games_loop 0 gs s0 = s0\<lparr>trace := trace s0 @ forwarding_with_pauses gs\<rparr>"
    by (simp add: add_games_loop_trace forwarding_shift)
  ultimately have "trace s0 @ forwarding_with_pauses gs =
      trace s0 @ map (\<lambda>g. AddGame (game_of g)) a @ [Sleep 5]
                 @ map (\<lambda>g. AddGame (game_of g)) b @ [Sleep 5]
                 @ map (\<lambda>g. AddGame (game_of g)) c"
    by (metis backend.select_convs(11) backend.surjective backend.update_convs(11))
  then show ?thesis
    by (simp add: a_def b_def c_def)
qed

text \<open>
  Claim C8. A drained batch that is not empty is forwarded as the spec words it: one
  entry at a time, with a pause after the \<open>k\<close>-th entry exactly when \<open>k\<close> is a multiple of
  50. The number of pauses is the number of entries divided by 50, and 120 entries are
  forwarded as 50 entries, a pause, 50 entries, a pause and 20 entries.
\<close>

theorem pauses_after_every_fiftieth_entry:
  assumes "added_games (games s) = gs" and "gs \<noteq> []"
  shows "trace (update_owned_games s) = trace s @ forwarding_with_pauses gs
       \<and> length (filter is_pause (forwarding_with_pauses gs)) = length gs div 50
       \<and> (length gs = 120 \<longrightarrow>
            forwarding_with_pauses gs =
              map (\<lambda>g. AddGame (game_of g)) (take 50 gs) @ [Sleep 5]
              @ map (\<lambda>g. AddGame (game_of g)) (take 50 (drop 50 gs)) @ [Sleep 5]
              @ map (\<lambda>g. AddGame (game_of g)) (drop 100 gs))"
  using assms update_owned_games_trace [of s] forwarding_120 [of gs]
        pause_count [of "\<lambda>k. game_of (gs ! (k - 1))" "length gs"]
  by (simp add: forwarding_with_pauses_def)

theorem pauses_after_every_fiftieth_entry_witness:
  "added_games (games bulk_backend) = replicate 120 some_app
   \<and> replicate 120 some_app \<noteq> []
   \<and> length (filter is_pause (trace (update_owned_games bulk_backend))) = 2
   \<and> trace (update_owned_games bulk_backend) =
       replicate 50 (AddGame (game_of some_app)) @ [Sleep 5]
       @ replicate 50 (AddGame (game_of some_app)) @ [Sleep 5]
       @ replicate 20 (AddGame (game_of some_app))"
proof -
  have a: "added_games (games bulk_backend) = replicate 120 some_app"
    by (simp add: bulk_backend_def)
  have b: "replicate 120 some_app \<noteq> []"
    by simp
  have t: "trace bulk_backend = []"
    by (simp add: bulk_backend_def new_backend_def)
  note w = pauses_after_every_fiftieth_entry [OF a b]
  have tr: "trace (update_owned_games bulk_backend) = forwarding_with_pauses (replicate 120 some_app)"
    using w [THEN conjunct1] t by simp
  have n: "length (filter is_pause (forwarding_with_pauses (replicate 120 some_app))) = 2"
    using w [THEN conjunct2, THEN conjunct1] by simp
  have f: "forwarding_with_pauses (replicate 120 some_app) =
       replicate 50 (AddGame (game_of some_app)) @ [Sleep 5]
       @ replicate 50 (AddGame (game_of some_app)) @ [Sleep 5]
       @ replicate 20 (AddGame (game_of some_app))"
    using w [THEN conjunct2, THEN conjunct2] by simp
  have n': "length (filter is_pause (trace (update_owned_games bulk_backend))) = 2"
    by (simp only: tr n)
  have f': "trace (update_owned_games bulk_backend) =
       replicate 50 (AddGame (game_of some_app)) @ [Sleep 5]
       @ replicate 50 (AddGame (game_of some_app)) @ [Sleep 5]
       @ replicate 20 (AddGame (game_of some_app))"
    by (simp only: tr f)
  show ?thesis
    using a b n' f' by blast
qed

subsection \<open>Feature methods\<close>

text \<open>
  Claim C10. \<^verbatim>\<open>get_game_time\<close> returns the cached played time, and as last-played time
  \<^verbatim>\<open>None\<close> when the cached value is the sentinel 86400 and the cached value otherwise; a
  game that is not in the cache gives \<^verbatim>\<open>None\<close> for both. The function has no failing
  branch.
\<close>

theorem get_game_time_last_played:
  "get_game_time s game_id =
     GameTime game_id (cached_time s game_id ''time_played'')
       (if cached_time s game_id ''last_played'' = Some 86400 then None
        else cached_time s game_id ''last_played'')
   \<and> (times_cache s game_id = None \<longrightarrow> get_game_time s game_id = GameTime game_id None None)"
  by (simp add: get_game_time_def cached_time_def GAME_DOES_NOT_SUPPORT_LAST_PLAYED_VALUE_def Let_def)

theorem get_game_time_last_played_witness:
  "get_game_time played_backend ''10'' = GameTime ''10'' (Some 120) None
   \<and> get_game_time played_backend ''20'' = GameTime ''20'' (Some 45) (Some 1600000000)
   \<and> times_cache played_backend ''30'' = None
   \<and> get_game_time played_backend ''30'' = GameTime ''30'' None None"
  using get_game_time_last_played [of played_backend "''10''"]
        get_game_time_last_played [of played_backend "''20''"]
        get_game_time_last_played [of played_backend "''30''"]
  by (simp add: played_backend_def new_backend_def cached_time_def)

text \<open>
  Claim C1, as it fails: with no identity, \<^verbatim>\<open>get_subscriptions\<close> waits for the catalog
  cache and returns its list, and \<^verbatim>\<open>get_game_time\<close> reads the playtime cache and returns;
  neither raises \<^verbatim>\<open>AuthenticationRequired\<close>.
\<close>

theorem unguarded_feature_methods:
  "steam_id (user_info new_backend) = None
   \<and> get_subscriptions new_backend None
       = (Inr [Subscription ''Steam Family Sharing'' False None AUTOMATIC],
          new_backend\<lparr>trace := [WaitReady GamesCache 90]\<rparr>)
   \<and> get_game_time new_backend ''10'' = GameTime ''10'' None None"
  by (simp add: get_subscriptions_def wait_ready_def emit_def new_backend_def get_game_time_def
        cached_time_def Let_def)

text \<open>
  Claim C1, amended to the methods that test the identity: with the account id unset,
  \<^verbatim>\<open>get_owned_games\<close>, \<^verbatim>\<open>prepare_achievements_context\<close>, \<^verbatim>\<open>prepare_game_times_context\<close>,
  \<^verbatim>\<open>prepare_game_library_settings_context\<close> and \<^verbatim>\<open>get_friends\<close> raise
  \<^verbatim>\<open>AuthenticationRequired\<close> and leave the state as it was: nothing was waited for,
  requested or written.
\<close>

theorem guarded_feature_methods:
  assumes "steam_id (user_info s) = None"
  shows "get_owned_games w s waited iterated = (Inl AuthenticationRequired, s)
       \<and> prepare_achievements_context s game_ids requested waited = (Inl AuthenticationRequired, s)
       \<and> prepare_game_times_context s game_ids requested waited = (Inl AuthenticationRequired, s)
       \<and> prepare_game_library_settings_context s game_ids retrieved = (Inl AuthenticationRequired, s)
       \<and> get_friends s friends_ids friends_infos friends_nicknames = (Inl AuthenticationRequired, s)"
  using assms
  by (simp add: get_owned_games_def prepare_achievements_context_def prepare_game_times_context_def
        prepare_game_library_settings_context_def get_friends_def)

theorem guarded_feature_methods_witness:
  "steam_id (user_info new_backend) = None
   \<and> get_owned_games some_w3_hack new_backend None None = (Inl AuthenticationRequired, new_backend)
   \<and> prepare_achievements_context new_backend [''10''] None None = (Inl AuthenticationRequired, new_backend)
   \<and> prepare_game_times_context new_backend [''10''] None None = (Inl AuthenticationRequired, new_backend)
   \<and> prepare_game_library_settings_context new_backend [''10''] (Inr ()) = (Inl AuthenticationRequired, new_backend)
   \<and> get_friends new_backend [] [] Map.empty = (Inl AuthenticationRequired, new_backend)"
proof -
  have h: "steam_id (user_info new_backend) = None"
    by (simp add: new_backend_def)
  show ?thesis
    using h guarded_feature_methods [OF h, of some_w3_hack] by simp
qed

end
